theory Spec2Isabelle
  imports Complex_Main
begin

section \<open>Python values and exceptions\<close>

text \<open>
  The handlers of \<^verbatim>\<open>backend/server.py\<close> work on untyped JSON
  (\<^verbatim>\<open>Dict[str, Any]\<close>) and on MongoDB documents. Both are Python values: a
  dictionary is an association list (a key is bound to its first entry), a number is an
  idealised real. JSON arrays do not occur in the fields the handlers read and are left
  out of the type.
\<close>

datatype pyval =
    PNone
  | PBool bool
  | PNum real
  | PStr string
  | PDict "(string \<times> pyval) list"
  | PObjectId nat
  | PDatetime nat

type_synonym dict = "(string \<times> pyval) list"

text \<open>
  Exceptions are values. \<open>HTTPException\<close> carries the status code and the detail; the
  detail of the handler's last resort is the f-string
  \<^verbatim>\<open>f"Error generating chart: {str(e)}"\<close>, kept as the prefix and the exception.
\<close>

datatype exn =
    KeyError pyval
  | TypeError
  | ValidationError
  | LibraryError string
  | ConnectionFailure
  | HTTPException nat detail
and detail =
    Detail string
  | DetailOf string exn

text \<open>\<^verbatim>\<open>d[k]\<close> and \<^verbatim>\<open>d.get(k, default)\<close> on a dictionary.\<close>

definition dict_getitem :: "dict \<Rightarrow> string \<Rightarrow> exn + pyval" where
  "dict_getitem d k = (case map_of d k of None \<Rightarrow> Inl (KeyError (PStr k)) | Some v \<Rightarrow> Inr v)"

definition dict_get :: "dict \<Rightarrow> string \<Rightarrow> pyval \<Rightarrow> pyval" where
  "dict_get d k dflt = (case map_of d k of None \<Rightarrow> dflt | Some v \<Rightarrow> v)"

text \<open>Python's truth value of a JSON value, as \<^verbatim>\<open>if y_column and ...\<close> tests it.\<close>

fun truthy :: "pyval \<Rightarrow> bool" where
  "truthy PNone = False"
| "truthy (PBool b) = b"
| "truthy (PNum r) = (r \<noteq> 0)"
| "truthy (PStr s) = (s \<noteq> [])"
| "truthy (PDict d) = (d \<noteq> [])"
| "truthy (PObjectId _) = True"
| "truthy (PDatetime _) = True"

section \<open>Data frames\<close>

text \<open>
  What \<^verbatim>\<open>pd.read_csv\<close> returns: named columns, each with the dtype pandas inferred
  for it and its cells; a missing cell is \<open>NaN\<close>. The parser itself is a parameter of
  the model (see \<open>env\<close> below). pandas renames repeated header names, so the names of a
  parsed frame are distinct; theorems that need this say so.
\<close>

datatype dtype = Int64 | UInt64 | Float64 | Bool | Object

datatype cell = NaN | Num real | Str string | Flag bool

record column =
  name :: string
  dtype :: dtype
  cells :: "cell list"

type_synonym dataframe = "column list"

definition df_columns :: "dataframe \<Rightarrow> string list" where
  "df_columns df = map name df"

text \<open>\<^verbatim>\<open>df.index\<close>: the row numbers \<open>0 .. n - 1\<close>.\<close>

definition df_index :: "dataframe \<Rightarrow> cell list" where
  "df_index df =
     (case df of [] \<Rightarrow> [] | c # _ \<Rightarrow> map (\<lambda>i. Num (real i)) [0..<length (cells c)])"

text \<open>
  \<^verbatim>\<open>df[key]\<close>: the column of that name, \<^verbatim>\<open>KeyError\<close> when no column has it.
  Column labels are strings, so no other hashable key is a label; a dictionary is not
  hashable.
\<close>

definition df_getitem :: "dataframe \<Rightarrow> pyval \<Rightarrow> exn + column" where
  "df_getitem df k =
     (case k of
        PStr s \<Rightarrow> (case find (\<lambda>c. name c = s) df of
                     Some c \<Rightarrow> Inr c
                   | None \<Rightarrow> Inl (KeyError k))
      | PDict _ \<Rightarrow> Inl TypeError
      | _ \<Rightarrow> Inl (KeyError k))"

text \<open>\<^verbatim>\<open>key in df.columns\<close>.\<close>

definition in_columns :: "pyval \<Rightarrow> dataframe \<Rightarrow> exn + bool" where
  "in_columns k df =
     (case k of
        PStr s \<Rightarrow> Inr (s \<in> set (df_columns df))
      | PDict _ \<Rightarrow> Inl TypeError
      | _ \<Rightarrow> Inr False)"

text \<open>The guard \<^verbatim>\<open>y_column and y_column in df.columns\<close> (short-circuit \<^verbatim>\<open>and\<close>).\<close>

definition has_y :: "pyval \<Rightarrow> dataframe \<Rightarrow> exn + bool" where
  "has_y y df = (if truthy y then in_columns y df else Inr False)"

subsection \<open>\<^verbatim>\<open>select_dtypes\<close>\<close>

datatype dtype_sel = SelNumber | SelObject | SelCategory

text \<open>
  \<^verbatim>\<open>'number'\<close> selects the integer and floating dtypes and not \<^verbatim>\<open>bool\<close>;
  \<^verbatim>\<open>'object'\<close> selects \<^verbatim>\<open>object\<close>; \<^verbatim>\<open>read_csv\<close> creates no
  \<^verbatim>\<open>category\<close> column.
\<close>

fun dtype_matches :: "dtype_sel \<Rightarrow> dtype \<Rightarrow> bool" where
  "dtype_matches SelNumber d = (d = Int64 \<or> d = UInt64 \<or> d = Float64)"
| "dtype_matches SelObject d = (d = Object)"
| "dtype_matches SelCategory d = False"

definition select_dtypes :: "dtype_sel list \<Rightarrow> dataframe \<Rightarrow> dataframe" where
  "select_dtypes incl df = filter (\<lambda>c. list_ex (\<lambda>s. dtype_matches s (dtype c)) incl) df"

subsection \<open>\<^verbatim>\<open>value_counts\<close>, \<^verbatim>\<open>groupby(...).sum()\<close>, \<^verbatim>\<open>dropna\<close>\<close>

definition dropna :: "cell list \<Rightarrow> cell list" where
  "dropna xs = filter (\<lambda>v. v \<noteq> NaN) xs"

text \<open>The distinct values of a list, in the order of their first occurrence.\<close>

definition uniques :: "cell list \<Rightarrow> cell list" where
  "uniques xs = rev (remdups (rev xs))"

text \<open>
  \<^verbatim>\<open>Series.value_counts()\<close>: one entry per distinct value that is not missing
  (\<^verbatim>\<open>dropna=True\<close>), with the number of its occurrences, most frequent first.
\<close>

definition value_counts :: "cell list \<Rightarrow> (cell \<times> nat) list" where
  "value_counts xs =
     sort_key (\<lambda>(v, n). - int n) (map (\<lambda>v. (v, count_list xs v)) (uniques (dropna xs)))"

text \<open>The order of group keys: numbers by value, strings by code point.\<close>

fun str_le :: "string \<Rightarrow> string \<Rightarrow> bool" where
  "str_le [] _ = True"
| "str_le (c # cs) [] = False"
| "str_le (c # cs) (d # ds) =
     ((of_char c :: nat) < of_char d \<or> (c = d \<and> str_le cs ds))"

fun cell_rank :: "cell \<Rightarrow> nat" where
  "cell_rank (Flag _) = 0"
| "cell_rank (Num _) = 1"
| "cell_rank (Str _) = 2"
| "cell_rank NaN = 3"

fun cell_le :: "cell \<Rightarrow> cell \<Rightarrow> bool" where
  "cell_le (Num a) (Num b) = (a \<le> b)"
| "cell_le (Str a) (Str b) = str_le a b"
| "cell_le (Flag a) (Flag b) = (a \<le> b)"
| "cell_le u v = (cell_rank u \<le> cell_rank v)"

fun insort_cell :: "cell \<Rightarrow> cell list \<Rightarrow> cell list" where
  "insort_cell v [] = [v]"
| "insort_cell v (u # us) = (if cell_le v u then v # u # us else u # insort_cell v us)"

fun sort_cells :: "cell list \<Rightarrow> cell list" where
  "sort_cells [] = []"
| "sort_cells (v # vs) = insort_cell v (sort_cells vs)"

text \<open>
  The integer a cell of an integer column holds, and the numbers of a column of floats,
  missing cells left out.
\<close>

fun cell_int :: "cell \<Rightarrow> int" where
  "cell_int (Num r) = \<lfloor>r\<rfloor>"
| "cell_int _ = 0"

definition numbers :: "cell list \<Rightarrow> real list" where
  "numbers xs = List.map_filter (\<lambda>c. case c of Num r \<Rightarrow> Some r | _ \<Rightarrow> None) xs"

text \<open>
  Arithmetic on \<^verbatim>\<open>int64\<close> and \<^verbatim>\<open>uint64\<close> wraps around: a result is reduced
  modulo \<open>2^64\<close> into the range of the type.
\<close>

definition int64_wrap :: "int \<Rightarrow> int" where
  "int64_wrap n = (n + 2 ^ 63) mod 2 ^ 64 - 2 ^ 63"

definition uint64_wrap :: "int \<Rightarrow> int" where
  "uint64_wrap n = n mod 2 ^ 64"

text \<open>The \<open>y\<close> cells of the rows whose \<open>x\<close> cell is \<open>k\<close>.\<close>

definition group_rows :: "cell list \<Rightarrow> cell list \<Rightarrow> cell \<Rightarrow> cell list" where
  "group_rows xs ys k = map snd (filter (\<lambda>(x, y). x = k) (zip xs ys))"

text \<open>Running a fallible function over a list; the first exception ends it.\<close>

fun collect :: "('a \<Rightarrow> exn + 'b) \<Rightarrow> 'a list \<Rightarrow> exn + 'b list" where
  "collect f [] = Inr []"
| "collect f (x # xs) =
     (case f x of
        Inl e \<Rightarrow> Inl e
      | Inr y \<Rightarrow> (case collect f xs of Inl e \<Rightarrow> Inl e | Inr ys \<Rightarrow> Inr (y # ys)))"

text \<open>
  \<^verbatim>\<open>Series.sum()\<close> of one group. An integer column is summed in its own type, with
  wrap-around. A column of floats is summed in \<^verbatim>\<open>float64\<close>, missing cells skipped;
  the rounded sum of a list of numbers is left to the library (parameter \<open>fsum\<close>), and so
  is the sum of a group of dtype \<^verbatim>\<open>bool\<close> or \<^verbatim>\<open>object\<close> (parameter
  \<open>osum\<close>).
\<close>

definition series_sum ::
  "(real list \<Rightarrow> real) \<Rightarrow> (cell list \<Rightarrow> exn + cell) \<Rightarrow> dtype \<Rightarrow> cell list \<Rightarrow> exn + cell" where
  "series_sum fsum osum d ys =
     (case d of
        Int64 \<Rightarrow> Inr (Num (of_int (int64_wrap (sum_list (map cell_int ys)))))
      | UInt64 \<Rightarrow> Inr (Num (of_int (uint64_wrap (sum_list (map cell_int ys)))))
      | Float64 \<Rightarrow> Inr (Num (fsum (numbers ys)))
      | Bool \<Rightarrow> osum ys
      | Object \<Rightarrow> osum ys)"

text \<open>
  \<^verbatim>\<open>df.groupby(x_column)[y_column].sum()\<close>: one group per distinct key that is not
  missing, keys sorted, each with the sum of the group's \<open>y\<close> cells.
\<close>

definition groupby_sum ::
  "(real list \<Rightarrow> real) \<Rightarrow> (cell list \<Rightarrow> exn + cell) \<Rightarrow> column \<Rightarrow> column
     \<Rightarrow> exn + (cell \<times> cell) list" where
  "groupby_sum fsum osum cx cy =
     collect
       (\<lambda>k. case series_sum fsum osum (dtype cy) (group_rows (cells cx) (cells cy) k) of
              Inl e \<Rightarrow> Inl e
            | Inr s \<Rightarrow> Inr (k, s))
       (sort_cells (uniques (dropna (cells cx))))"

subsection \<open>\<^verbatim>\<open>DataFrame.corr()\<close>\<close>

text \<open>
  The matrix of pairwise coefficients. The coefficient of two columns is computed from the
  rows where both cells are present. pandas computes it in \<^verbatim>\<open>float64\<close>; the
  function from the paired values to the coefficient, \<open>None\<close> for NaN, is left to the
  library (parameter \<open>coef\<close>).
\<close>

fun num_pair :: "cell \<times> cell \<Rightarrow> (real \<times> real) option" where
  "num_pair (Num a, Num b) = Some (a, b)"
| "num_pair _ = None"

definition complete_pairs :: "cell list \<Rightarrow> cell list \<Rightarrow> (real \<times> real) list" where
  "complete_pairs xs ys = List.map_filter num_pair (zip xs ys)"

definition corr :: "((real \<times> real) list \<Rightarrow> real option) \<Rightarrow> dataframe \<Rightarrow> real option list list" where
  "corr coef df = map (\<lambda>ci. map (\<lambda>cj. coef (complete_pairs (cells ci) (cells cj))) df) df"

section \<open>The pyplot state\<close>

text \<open>
  \<^verbatim>\<open>matplotlib.pyplot\<close> keeps a process-wide stack of open figures; the first one is
  the current figure, which every drawing call changes. A figure is its size and the
  calls drawn into it. The colour scheme of a call is the value of
  \<^verbatim>\<open>color_scheme\<close> that the call's colour is looked up with
  (\<^verbatim>\<open>plt.cm.get_cmap(color_scheme)\<close>, or \<^verbatim>\<open>cmap=color_scheme\<close>).
\<close>

datatype plt_call =
    Figure real real
  | Bar "cell list" "cell list" pyval
  | Plot "cell list" "cell list" pyval
  | Scatter "cell list" "cell list" pyval
  | Pie "cell list" "cell list" pyval
  | Hist "cell list" nat pyval
  | Imshow "real option list list" pyval
  | Colorbar
  | Xticks_rotation
  | Xticks "nat list" "string list"
  | Yticks "nat list" "string list"
  | Text nat nat "real option" string
  | Xlabel pyval
  | Ylabel pyval
  | Title pyval
  | Tight_layout
  | Savefig
  | Close

record figure =
  fig_size :: "real \<times> real"
  drawn :: "plt_call list"

definition default_figure :: figure where
  "default_figure = \<lparr>fig_size = (6.4, 4.8), drawn = []\<rparr>"

text \<open>\<^verbatim>\<open>plt.gcf()\<close>: the current figure, a new one when none is open.\<close>

definition gcf :: "figure list \<Rightarrow> figure list" where
  "gcf fs = (case fs of [] \<Rightarrow> [default_figure] | _ # _ \<Rightarrow> fs)"

definition draw :: "plt_call \<Rightarrow> figure list \<Rightarrow> figure list" where
  "draw c fs = (case gcf fs of f # rest \<Rightarrow> f\<lparr>drawn := drawn f @ [c]\<rparr> # rest | [] \<Rightarrow> [])"

text \<open>
  The effect of a call that does not raise: \<^verbatim>\<open>plt.figure\<close> opens a figure and makes
  it current, \<^verbatim>\<open>plt.close()\<close> disposes of the current figure (of nothing when none is
  open), \<^verbatim>\<open>plt.savefig\<close> reads the current figure, every other call draws into it.
\<close>

fun plt :: "plt_call \<Rightarrow> figure list \<Rightarrow> figure list" where
  "plt (Figure w h) fs = \<lparr>fig_size = (w, h), drawn = []\<rparr> # fs"
| "plt Close fs = (case fs of [] \<Rightarrow> [] | _ # rest \<Rightarrow> rest)"
| "plt Savefig fs = gcf fs"
| "plt c fs = draw c fs"

section \<open>The environment of a call\<close>

text \<open>
  What the handlers take from their libraries and their surroundings, and the source does
  not determine: decoding and parsing, which calls matplotlib rejects (an unknown colour
  scheme, a wedge size below zero, a figure size that is not positive), the bytes of the
  rendered image, the arithmetic of \<^verbatim>\<open>float64\<close> (the sum of a list of numbers and
  the Pearson coefficient of a list of pairs), the identifier and the time (in
  microseconds) a record is created with, the identifier the store gives a document, and
  whether the store answers.
\<close>

record env =
  b64decode :: "pyval \<Rightarrow> exn + string"
  b64encode :: "string \<Rightarrow> string"
  utf8_decode :: "string \<Rightarrow> exn + string"
  read_csv :: "string \<Rightarrow> exn + dataframe"
  osum :: "cell list \<Rightarrow> exn + cell"
  f64_sum :: "real list \<Rightarrow> real"
  pearson_f64 :: "(real \<times> real) list \<Rightarrow> real option"
  mpl_raises :: "plt_call \<Rightarrow> exn option"
  png_base64 :: "figure \<Rightarrow> string"
  uuid4 :: string
  utcnow :: nat
  object_id :: nat
  db_reachable :: bool

text \<open>
  The process state the handlers share: the open figures and the \<^verbatim>\<open>charts\<close>
  collection, in insertion order.
\<close>

record world =
  figures :: "figure list"
  charts :: "dict list"

text \<open>
  A sequence of pyplot calls: the first one that raises ends the sequence, and the calls
  before it have taken effect.
\<close>

fun run_calls :: "env \<Rightarrow> plt_call list \<Rightarrow> figure list \<Rightarrow> exn option \<times> figure list" where
  "run_calls E [] fs = (None, fs)"
| "run_calls E (c # cs) fs =
     (case mpl_raises E c of
        Some e \<Rightarrow> (Some e, fs)
      | None \<Rightarrow> run_calls E cs (plt c fs))"

section \<open>\<^verbatim>\<open>generate_chart\<close>: the six branches\<close>

text \<open>
  Each branch evaluates its data first and then makes its pyplot calls, so a branch is
  either the exception its data raises or the list of its calls, in order.
\<close>

definition bar_calls :: "dataframe \<Rightarrow> pyval \<Rightarrow> pyval \<Rightarrow> pyval \<Rightarrow> exn + plt_call list" where
  "bar_calls df x_column y_column color_scheme =
     (case has_y y_column df of
        Inl e \<Rightarrow> Inl e
      | Inr b \<Rightarrow>
          if b then
            (case df_getitem df x_column of
               Inl e \<Rightarrow> Inl e
             | Inr cx \<Rightarrow>
                 (case df_getitem df y_column of
                    Inl e \<Rightarrow> Inl e
                  | Inr cy \<Rightarrow>
                      Inr [Bar (cells cx) (cells cy) color_scheme, Ylabel y_column,
                           Xlabel x_column, Xticks_rotation]))
          else
            (case df_getitem df x_column of
               Inl e \<Rightarrow> Inl e
             | Inr cx \<Rightarrow>
                 (let counts = value_counts (cells cx)
                  in Inr [Bar (map fst counts) (map (\<lambda>(v, n). Num (real n)) counts) color_scheme,
                          Ylabel (PStr ''Count''), Xlabel x_column, Xticks_rotation])))"

definition line_calls :: "dataframe \<Rightarrow> pyval \<Rightarrow> pyval \<Rightarrow> pyval \<Rightarrow> exn + plt_call list" where
  "line_calls df x_column y_column color_scheme =
     (case has_y y_column df of
        Inl e \<Rightarrow> Inl e
      | Inr b \<Rightarrow>
          if b then
            (case df_getitem df x_column of
               Inl e \<Rightarrow> Inl e
             | Inr cx \<Rightarrow>
                 (case df_getitem df y_column of
                    Inl e \<Rightarrow> Inl e
                  | Inr cy \<Rightarrow>
                      Inr [Plot (cells cx) (cells cy) color_scheme, Ylabel y_column,
                           Xlabel (if truthy y_column then x_column else PStr ''Index'')]))
          else
            (case df_getitem df x_column of
               Inl e \<Rightarrow> Inl e
             | Inr cx \<Rightarrow>
                 Inr [Plot (df_index df) (cells cx) color_scheme, Ylabel x_column,
                      Xlabel (PStr ''Index''),
                      Xlabel (if truthy y_column then x_column else PStr ''Index'')]))"

definition scatter_calls :: "dataframe \<Rightarrow> pyval \<Rightarrow> pyval \<Rightarrow> pyval \<Rightarrow> exn + plt_call list" where
  "scatter_calls df x_column y_column color_scheme =
     (case has_y y_column df of
        Inl e \<Rightarrow> Inl e
      | Inr b \<Rightarrow>
          if b then
            (case df_getitem df x_column of
               Inl e \<Rightarrow> Inl e
             | Inr cx \<Rightarrow>
                 (case df_getitem df y_column of
                    Inl e \<Rightarrow> Inl e
                  | Inr cy \<Rightarrow>
                      Inr [Scatter (cells cx) (cells cy) color_scheme, Ylabel y_column,
                           Xlabel x_column]))
          else Inl (HTTPException 400 (Detail ''Scatter plot requires both X and Y columns'')))"

text \<open>
  \<^verbatim>\<open>pie_data\<close> as the list of its (index, value) pairs; the colours are looked up
  between the aggregation and \<^verbatim>\<open>plt.pie\<close>.
\<close>

definition pie_data :: "env \<Rightarrow> dataframe \<Rightarrow> pyval \<Rightarrow> pyval \<Rightarrow> exn + (cell \<times> cell) list" where
  "pie_data E df x_column y_column =
     (case has_y y_column df of
        Inl e \<Rightarrow> Inl e
      | Inr b \<Rightarrow>
          if b then
            (case df_getitem df x_column of
               Inl e \<Rightarrow> Inl e
             | Inr cx \<Rightarrow>
                 (case df_getitem df y_column of
                    Inl e \<Rightarrow> Inl e
                  | Inr cy \<Rightarrow> groupby_sum (f64_sum E) (osum E) cx cy))
          else
            (case df_getitem df x_column of
               Inl e \<Rightarrow> Inl e
             | Inr cx \<Rightarrow> Inr (map (\<lambda>(v, n). (v, Num (real n))) (value_counts (cells cx)))))"

definition pie_calls :: "env \<Rightarrow> dataframe \<Rightarrow> pyval \<Rightarrow> pyval \<Rightarrow> pyval \<Rightarrow> exn + plt_call list" where
  "pie_calls E df x_column y_column color_scheme =
     (case pie_data E df x_column y_column of
        Inl e \<Rightarrow> Inl e
      | Inr pd \<Rightarrow> Inr [Pie (map snd pd) (map fst pd) color_scheme])"

definition histogram_calls :: "dataframe \<Rightarrow> pyval \<Rightarrow> pyval \<Rightarrow> exn + plt_call list" where
  "histogram_calls df x_column color_scheme =
     (case df_getitem df x_column of
        Inl e \<Rightarrow> Inl e
      | Inr cx \<Rightarrow>
          Inr [Hist (dropna (cells cx)) 30 color_scheme, Xlabel x_column,
               Ylabel (PStr ''Frequency'')])"

text \<open>
  The text of a heatmap cell is its coefficient (the formatting to two decimals is not
  modelled); it is white above 0.5 in absolute value and black otherwise, also for NaN.
\<close>

definition text_color :: "real option \<Rightarrow> string" where
  "text_color v = (case v of Some r \<Rightarrow> if \<bar>r\<bar> > 0.5 then ''white'' else ''black'' | None \<Rightarrow> ''black'')"

definition heatmap_calls :: "env \<Rightarrow> dataframe \<Rightarrow> pyval \<Rightarrow> exn + plt_call list" where
  "heatmap_calls E df color_scheme =
     (let numeric_df = select_dtypes [SelNumber] df
      in if length (df_columns numeric_df) < 2
         then Inl (HTTPException 400 (Detail ''Heatmap requires at least 2 numeric columns''))
         else
           (let correlation_matrix = corr (pearson_f64 E) numeric_df;
                n = length (df_columns numeric_df)
            in Inr ([Imshow correlation_matrix color_scheme, Colorbar,
                     Xticks [0..<n] (df_columns numeric_df),
                     Yticks [0..<n] (df_columns numeric_df)]
                    @ concat (map (\<lambda>i. map (\<lambda>j. Text j i (correlation_matrix ! i ! j)
                                                    (text_color (correlation_matrix ! i ! j)))
                                             [0..<n])
                                  [0..<n]))))"

text \<open>The \<^verbatim>\<open>if\<close>/\<^verbatim>\<open>elif\<close> chain on \<^verbatim>\<open>chart_type\<close>; no \<^verbatim>\<open>else\<close>.\<close>

definition chart_calls ::
  "env \<Rightarrow> dataframe \<Rightarrow> pyval \<Rightarrow> pyval \<Rightarrow> pyval \<Rightarrow> pyval \<Rightarrow> exn + plt_call list" where
  "chart_calls E df chart_type x_column y_column color_scheme =
     (if chart_type = PStr ''bar'' then bar_calls df x_column y_column color_scheme
      else if chart_type = PStr ''line'' then line_calls df x_column y_column color_scheme
      else if chart_type = PStr ''scatter'' then scatter_calls df x_column y_column color_scheme
      else if chart_type = PStr ''pie'' then pie_calls E df x_column y_column color_scheme
      else if chart_type = PStr ''histogram'' then histogram_calls df x_column color_scheme
      else if chart_type = PStr ''heatmap'' then heatmap_calls E df color_scheme
      else Inr [])"

section \<open>\<^verbatim>\<open>generate_chart\<close>: the handler\<close>

text \<open>The values the handler reads from the request before it draws (lines 128 to 138).\<close>

record chart_inputs =
  in_df :: dataframe
  in_config :: dict
  in_chart_type :: pyval
  in_x_column :: pyval
  in_y_column :: pyval
  in_color_scheme :: pyval
  in_title :: pyval
  in_width :: pyval
  in_height :: pyval

definition read_request :: "env \<Rightarrow> dict \<Rightarrow> exn + chart_inputs" where
  "read_request E chart_request =
     (case dict_getitem chart_request ''data'' of
        Inl e \<Rightarrow> Inl e
      | Inr d \<Rightarrow>
     (case b64decode E d of
        Inl e \<Rightarrow> Inl e
      | Inr bytes \<Rightarrow>
     (case utf8_decode E bytes of
        Inl e \<Rightarrow> Inl e
      | Inr csv_data \<Rightarrow>
     (case read_csv E csv_data of
        Inl e \<Rightarrow> Inl e
      | Inr df \<Rightarrow>
     (case dict_getitem chart_request ''config'' of
        Inl e \<Rightarrow> Inl e
      | Inr config \<Rightarrow>
     (case config of
        PDict c \<Rightarrow>
          (case dict_getitem c ''chart_type'' of
             Inl e \<Rightarrow> Inl e
           | Inr chart_type \<Rightarrow>
          (case dict_getitem c ''x_column'' of
             Inl e \<Rightarrow> Inl e
           | Inr x_column \<Rightarrow>
               Inr \<lparr>in_df = df, in_config = c, in_chart_type = chart_type,
                    in_x_column = x_column,
                    in_y_column = dict_get c ''y_column'' PNone,
                    in_color_scheme = dict_get c ''color_scheme'' (PStr ''viridis''),
                    in_title = dict_get c ''title'' (PStr ''Chart''),
                    in_width = dict_get c ''width'' (PNum 800),
                    in_height = dict_get c ''height'' (PNum 600)\<rparr>))
      | _ \<Rightarrow> Inl TypeError))))))"

text \<open>\<^verbatim>\<open>width/100\<close>: defined on numbers (a boolean is a number in Python).\<close>

fun py_div100 :: "pyval \<Rightarrow> exn + real" where
  "py_div100 (PNum r) = Inr (r / 100)"
| "py_div100 (PBool b) = Inr (of_bool b / 100)"
| "py_div100 _ = Inl TypeError"

definition current :: "figure list \<Rightarrow> figure" where
  "current fs = (case fs of [] \<Rightarrow> default_figure | f # _ \<Rightarrow> f)"

text \<open>
  Lines 141 to 216: open a figure, draw the chart, title it, encode it, close the figure.
  The result is the encoded image or the exception, with the figures left open.
\<close>

definition render :: "env \<Rightarrow> chart_inputs \<Rightarrow> figure list \<Rightarrow> (exn + string) \<times> figure list" where
  "render E i fs =
     (case py_div100 (in_width i) of
        Inl e \<Rightarrow> (Inl e, fs)
      | Inr w \<Rightarrow>
     (case py_div100 (in_height i) of
        Inl e \<Rightarrow> (Inl e, fs)
      | Inr h \<Rightarrow>
     (case run_calls E [Figure w h] fs of
        (Some e, fs1) \<Rightarrow> (Inl e, fs1)
      | (None, fs1) \<Rightarrow>
     (case chart_calls E (in_df i) (in_chart_type i) (in_x_column i) (in_y_column i)
             (in_color_scheme i) of
        Inl e \<Rightarrow> (Inl e, fs1)
      | Inr calls \<Rightarrow>
     (case run_calls E (calls @ [Title (in_title i), Tight_layout, Savefig]) fs1 of
        (Some e, fs2) \<Rightarrow> (Inl e, fs2)
      | (None, fs2) \<Rightarrow> (Inr (png_base64 E (current fs2)), plt Close fs2))))))"

text \<open>
  The pydantic models. A field holds a value of its declared type or the model is
  rejected; an optional field may be \<^verbatim>\<open>None\<close>, a field left out takes its default,
  a key the model does not declare is ignored. The result is the \<^verbatim>\<open>.dict()\<close> of the
  model.
\<close>

fun is_str :: "pyval \<Rightarrow> bool" where
  "is_str (PStr _) = True"
| "is_str _ = False"

fun opt_str :: "pyval \<Rightarrow> bool" where
  "opt_str PNone = True"
| "opt_str v = is_str v"

fun opt_int :: "pyval \<Rightarrow> bool" where
  "opt_int PNone = True"
| "opt_int (PNum r) = (of_int \<lfloor>r\<rfloor> = r)"
| "opt_int _ = False"

definition ChartConfig :: "dict \<Rightarrow> exn + dict" where
  "ChartConfig c =
     (let chart_type = dict_get c ''chart_type'' PNone;
          x_column = dict_get c ''x_column'' PNone;
          y_column = dict_get c ''y_column'' PNone;
          color_scheme = dict_get c ''color_scheme'' (PStr ''viridis'');
          title = dict_get c ''title'' (PStr ''Chart'');
          width = dict_get c ''width'' (PNum 800);
          height = dict_get c ''height'' (PNum 600)
      in if is_str chart_type \<and> is_str x_column \<and> opt_str y_column \<and> opt_str color_scheme
            \<and> opt_str title \<and> opt_int width \<and> opt_int height
         then Inr [(''chart_type'', chart_type), (''x_column'', x_column),
                   (''y_column'', y_column), (''color_scheme'', color_scheme),
                   (''title'', title), (''width'', width), (''height'', height)]
         else Inl ValidationError)"

definition ChartData :: "env \<Rightarrow> pyval \<Rightarrow> pyval \<Rightarrow> dict \<Rightarrow> string \<Rightarrow> exn + dict" where
  "ChartData E file_name payload config chart_image =
     (if is_str file_name \<and> is_str payload
      then Inr [(''id'', PStr (uuid4 E)), (''filename'', file_name), (''data'', payload),
                (''config'', PDict config), (''chart_image'', PStr chart_image),
                (''timestamp'', PDatetime (utcnow E))]
      else Inl ValidationError)"

text \<open>
  What the store keeps of a value: a datetime is kept to the millisecond (the
  microseconds below it are cut off), every other value as it is.
\<close>

fun bson :: "pyval \<Rightarrow> pyval"
  and bson_doc :: "(string \<times> pyval) list \<Rightarrow> (string \<times> pyval) list" where
  "bson (PDatetime t) = PDatetime (t - t mod 1000)"
| "bson (PDict d) = PDict (bson_doc d)"
| "bson PNone = PNone"
| "bson (PBool b) = PBool b"
| "bson (PNum r) = PNum r"
| "bson (PStr s) = PStr s"
| "bson (PObjectId n) = PObjectId n"
| "bson_doc [] = []"
| "bson_doc (kv # d) = (fst kv, bson (snd kv)) # bson_doc d"

text \<open>
  \<^verbatim>\<open>db.charts.insert_one(doc)\<close>: the store adds its own \<^verbatim>\<open>_id\<close> to a document
  that has none and appends what it keeps of the document; nothing is stored when the
  store does not answer.
\<close>

definition insert_one :: "env \<Rightarrow> dict list \<Rightarrow> dict \<Rightarrow> exn + dict list" where
  "insert_one E coll doc =
     (if db_reachable E
      then Inr (coll @ [bson_doc (if map_of doc ''_id'' = None
                                  then doc @ [(''_id'', PObjectId (object_id E))] else doc)])
      else Inl ConnectionFailure)"

text \<open>Lines 219 to 232: build the record, insert it, answer.\<close>

definition persist ::
  "env \<Rightarrow> dict \<Rightarrow> chart_inputs \<Rightarrow> string \<Rightarrow> dict list \<Rightarrow> (exn + dict) \<times> dict list" where
  "persist E chart_request i image_base64 coll =
     (case dict_getitem chart_request ''filename'' of
        Inl e \<Rightarrow> (Inl e, coll)
      | Inr file_name \<Rightarrow>
     (case dict_getitem chart_request ''data'' of
        Inl e \<Rightarrow> (Inl e, coll)
      | Inr payload \<Rightarrow>
     (case ChartConfig (in_config i) of
        Inl e \<Rightarrow> (Inl e, coll)
      | Inr config \<Rightarrow>
     (case ChartData E file_name payload config image_base64 of
        Inl e \<Rightarrow> (Inl e, coll)
      | Inr chart_data \<Rightarrow>
     (case insert_one E coll chart_data of
        Inl e \<Rightarrow> (Inl e, coll)
      | Inr coll' \<Rightarrow>
          (Inr [(''id'', dict_get chart_data ''id'' PNone),
                (''chart_image'', PStr image_base64),
                (''message'', PStr ''Chart generated successfully'')],
           coll'))))))"

text \<open>The body of the \<^verbatim>\<open>try\<close> block.\<close>

definition try_generate :: "env \<Rightarrow> dict \<Rightarrow> world \<Rightarrow> (exn + dict) \<times> world" where
  "try_generate E chart_request w =
     (case read_request E chart_request of
        Inl e \<Rightarrow> (Inl e, w)
      | Inr i \<Rightarrow>
          (case render E i (figures w) of
             (Inl e, fs) \<Rightarrow> (Inl e, w\<lparr>figures := fs\<rparr>)
           | (Inr image_base64, fs) \<Rightarrow>
               (case persist E chart_request i image_base64 (charts w) of
                  (r, coll) \<Rightarrow> (r, \<lparr>figures = fs, charts = coll\<rparr>))))"

text \<open>
  \<^verbatim>\<open>except Exception as e\<close> catches every exception of the block, the
  \<^verbatim>\<open>HTTPException\<close>s raised inside it included, and raises status 500.
\<close>

definition generate_chart :: "env \<Rightarrow> dict \<Rightarrow> world \<Rightarrow> (exn + dict) \<times> world" where
  "generate_chart E chart_request w =
     (case try_generate E chart_request w of
        (Inl e, w') \<Rightarrow> (Inl (HTTPException 500 (DetailOf ''Error generating chart: '' e)), w')
      | (Inr response, w') \<Rightarrow> (Inr response, w'))"

section \<open>\<^verbatim>\<open>get_charts\<close> and \<^verbatim>\<open>get_chart\<close>\<close>

text \<open>\<^verbatim>\<open>if '_id' in chart: del chart['_id']\<close>.\<close>

definition strip_id :: "dict \<Rightarrow> dict" where
  "strip_id chart = filter (\<lambda>(k, v). k \<noteq> ''_id'') chart"

text \<open>\<^verbatim>\<open>db.charts.find().to_list(1000)\<close>: at most 1000 documents, in stored order.\<close>

definition get_charts :: "env \<Rightarrow> world \<Rightarrow> exn + dict list" where
  "get_charts E w =
     (if db_reachable E then Inr (map strip_id (take 1000 (charts w)))
      else Inl ConnectionFailure)"

text \<open>\<^verbatim>\<open>db.charts.find_one({"id": chart_id})\<close>: the first document with that id.\<close>

definition find_one :: "dict list \<Rightarrow> string \<Rightarrow> dict option" where
  "find_one coll chart_id = find (\<lambda>d. map_of d ''id'' = Some (PStr chart_id)) coll"

definition get_chart :: "env \<Rightarrow> string \<Rightarrow> world \<Rightarrow> exn + dict" where
  "get_chart E chart_id w =
     (if db_reachable E
      then (case find_one (charts w) chart_id of
              None \<Rightarrow> Inl (HTTPException 404 (Detail ''Chart not found''))
            | Some chart \<Rightarrow>
                if chart = [] then Inl (HTTPException 404 (Detail ''Chart not found''))
                else Inr (strip_id chart))
      else Inl ConnectionFailure)"

section \<open>\<^verbatim>\<open>upload_csv\<close>\<close>

record csv_info =
  filename :: string
  data :: string
  columns :: "string list"
  numeric_columns :: "string list"
  categorical_columns :: "string list"
  preview :: "(string \<times> cell) list list"
  row_count :: nat
  column_count :: nat

definition endswith :: "string \<Rightarrow> string \<Rightarrow> bool" where
  "endswith s suf = (length suf \<le> length s \<and> drop (length s - length suf) s = suf)"

text \<open>\<^verbatim>\<open>len(df)\<close>, and \<^verbatim>\<open>df.head(10).to_dict('records')\<close>.\<close>

definition df_len :: "dataframe \<Rightarrow> nat" where
  "df_len df = (case df of [] \<Rightarrow> 0 | c # _ \<Rightarrow> length (cells c))"

definition head_records :: "nat \<Rightarrow> dataframe \<Rightarrow> (string \<times> cell) list list" where
  "head_records n df =
     map (\<lambda>r. map (\<lambda>c. (name c, if r < length (cells c) then cells c ! r else NaN)) df)
         [0..<min n (df_len df)]"

definition upload_csv :: "env \<Rightarrow> string \<Rightarrow> string \<Rightarrow> exn + csv_info" where
  "upload_csv E file_name content =
     (if \<not> endswith file_name ''.csv''
      then Inl (HTTPException 400 (Detail ''Only CSV files are allowed''))
      else
        (case (case utf8_decode E content of
                 Inl e \<Rightarrow> Inl e
               | Inr content_str \<Rightarrow>
                   (case read_csv E content_str of
                      Inl e \<Rightarrow> Inl e
                    | Inr df \<Rightarrow>
                        Inr \<lparr>filename = file_name,
                             data = b64encode E content,
                             columns = df_columns df,
                             numeric_columns = df_columns (select_dtypes [SelNumber] df),
                             categorical_columns =
                               df_columns (select_dtypes [SelObject, SelCategory] df),
                             preview = head_records 10 df,
                             row_count = df_len df,
                             column_count = length (df_columns df)\<rparr>)) of
           Inl e \<Rightarrow> Inl (HTTPException 400 (DetailOf ''Error processing CSV: '' e))
         | Inr info \<Rightarrow> Inr info))"

section \<open>Exact arithmetic\<close>

text \<open>
  The Pearson coefficient of a list of pairs in exact arithmetic, the way pandas computes
  it: undefined without a pair and when the divisor is zero, and clipped to \<open>[-1, 1]\<close>.
  The computation in \<^verbatim>\<open>float64\<close> gives this value where it does not round.
\<close>

definition mean :: "real list \<Rightarrow> real" where
  "mean rs = sum_list rs / real (length rs)"

definition pearson_exact :: "(real \<times> real) list \<Rightarrow> real option" where
  "pearson_exact ps =
     (if length ps < 1 then None
      else
        (let mx = mean (map fst ps);
             my = mean (map snd ps);
             ssx = sum_list (map (\<lambda>(a, b). (a - mx) * (a - mx)) ps);
             ssy = sum_list (map (\<lambda>(a, b). (b - my) * (b - my)) ps);
             sxy = sum_list (map (\<lambda>(a, b). (a - mx) * (b - my)) ps);
             divisor = sqrt (ssx * ssy)
         in if divisor \<noteq> 0 then Some (max (- 1) (min 1 (sxy / divisor))) else None))"

section \<open>Sample inputs\<close>

text \<open>
  An environment in which every library call succeeds: the payload decodes to itself,
  the parser returns the given frame, matplotlib accepts every call, sums and
  coefficients are exact, the store answers. The clock stands at 1234567 microseconds.
\<close>

definition sample_env :: "dataframe \<Rightarrow> env" where
  "sample_env df =
     \<lparr>b64decode = (\<lambda>v. case v of PStr s \<Rightarrow> Inr s | _ \<Rightarrow> Inl TypeError),
      b64encode = (\<lambda>s. s),
      utf8_decode = (\<lambda>s. Inr s),
      read_csv = (\<lambda>s. Inr df),
      osum = (\<lambda>ys. Inl TypeError),
      f64_sum = sum_list,
      pearson_f64 = pearson_exact,
      mpl_raises = (\<lambda>c. None),
      png_base64 = (\<lambda>f. ''PNG''),
      uuid4 = ''chart-1'',
      utcnow = 1234567,
      object_id = 0,
      db_reachable = True\<rparr>"

text \<open>
  The frame of the CSV text
  \<^verbatim>\<open>Department,Salary,Age\<close> / \<^verbatim>\<open>Eng,10,30\<close> / \<^verbatim>\<open>Ops,20,30\<close> /
  \<^verbatim>\<open>Eng,30,30\<close>.
\<close>

definition staff_df :: dataframe where
  "staff_df =
     [\<lparr>name = ''Department'', dtype = Object, cells = [Str ''Eng'', Str ''Ops'', Str ''Eng'']\<rparr>,
      \<lparr>name = ''Salary'', dtype = Int64, cells = [Num 10, Num 20, Num 30]\<rparr>,
      \<lparr>name = ''Age'', dtype = Int64, cells = [Num 30, Num 30, Num 30]\<rparr>]"

text \<open>The frame of the CSV text \<^verbatim>\<open>flag\<close> / \<^verbatim>\<open>True\<close> / \<^verbatim>\<open>False\<close>.\<close>

definition flag_df :: dataframe where
  "flag_df = [\<lparr>name = ''flag'', dtype = Bool, cells = [Flag True, Flag False]\<rparr>]"

text \<open>
  The frame of \<^verbatim>\<open>Department,Salary\<close> / \<^verbatim>\<open>Eng,10\<close> / \<^verbatim>\<open>,20\<close> /
  \<^verbatim>\<open>Eng,30\<close>: the department of the second row is missing.
\<close>

definition gap_df :: dataframe where
  "gap_df =
     [\<lparr>name = ''Department'', dtype = Object, cells = [Str ''Eng'', NaN, Str ''Eng'']\<rparr>,
      \<lparr>name = ''Salary'', dtype = Int64, cells = [Num 10, Num 20, Num 30]\<rparr>]"

text \<open>
  The frame of \<^verbatim>\<open>Department,Salary\<close> / \<^verbatim>\<open>Eng,9223372036854775807\<close> /
  \<^verbatim>\<open>Eng,9223372036854775807\<close> / \<^verbatim>\<open>Eng,7\<close>: the salaries add up to
  \<open>2^64 + 5\<close>.
\<close>

definition big_df :: dataframe where
  "big_df =
     [\<lparr>name = ''Department'', dtype = Object, cells = [Str ''Eng'', Str ''Eng'', Str ''Eng'']\<rparr>,
      \<lparr>name = ''Salary'', dtype = Int64,
        cells = [Num 9223372036854775807, Num 9223372036854775807, Num 7]\<rparr>]"

text \<open>
  The frame of \<^verbatim>\<open>Department,Rate\<close> / \<^verbatim>\<open>Eng,2\<close> / \<^verbatim>\<open>Ops,\<close> /
  \<^verbatim>\<open>Eng,3\<close>: the rate of the second row is missing, which makes the column one of
  floats.
\<close>

definition rate_df :: dataframe where
  "rate_df =
     [\<lparr>name = ''Department'', dtype = Object, cells = [Str ''Eng'', Str ''Ops'', Str ''Eng'']\<rparr>,
      \<lparr>name = ''Rate'', dtype = Float64, cells = [Num 2, NaN, Num 3]\<rparr>]"

definition sample_request :: "string \<Rightarrow> pyval \<Rightarrow> pyval \<Rightarrow> dict" where
  "sample_request chart_type x_column y_column =
     [(''filename'', PStr ''staff.csv''),
      (''data'', PStr ''Department,Salary,Age ...''),
      (''config'', PDict [(''chart_type'', PStr chart_type), (''x_column'', x_column),
                          (''y_column'', y_column)])]"

definition empty_world :: world where
  "empty_world = \<lparr>figures = [], charts = []\<rparr>"

definition sample_doc :: dict where
  "sample_doc = [(''id'', PStr ''chart-0''), (''filename'', PStr ''staff.csv''),
                 (''_id'', PObjectId 7)]"

text \<open>A store that already holds a record.\<close>

definition stored_world :: world where
  "stored_world = \<lparr>figures = [], charts = [sample_doc]\<rparr>"

text \<open>A store that holds 1001 records.\<close>

definition full_world :: world where
  "full_world = \<lparr>figures = [], charts = replicate 1001 sample_doc\<rparr>"

section \<open>Notions the statements use\<close>



text \<open>The calls that draw into the current figure: all but opening and closing one.\<close>

definition is_drawing :: "plt_call \<Rightarrow> bool" where
  "is_drawing c = (case c of Figure w h \<Rightarrow> False | Close \<Rightarrow> False | _ \<Rightarrow> True)"

section \<open>Unfolding the model\<close>

lemmas sample_defs = sample_env_def sample_request_def staff_df_def flag_df_def empty_world_def
  stored_world_def sample_doc_def gap_df_def big_df_def rate_df_def

lemmas handler_defs = generate_chart_def try_generate_def read_request_def render_def persist_def
  ChartConfig_def ChartData_def insert_one_def dict_getitem_def dict_get_def chart_calls_def
  current_def gcf_def draw_def

lemmas branch_defs = bar_calls_def line_calls_def scatter_calls_def pie_calls_def pie_data_def
  histogram_calls_def has_y_def in_columns_def df_getitem_def df_columns_def df_index_def
  Let_def value_counts_def uniques_def dropna_def

section \<open>The handler, step by step\<close>

lemma bson_is_str: "is_str v \<Longrightarrow> bson v = v"
  by (cases v) simp_all

lemma bson_opt_str: "opt_str v \<Longrightarrow> bson v = v"
  by (cases v) simp_all

lemma bson_opt_int: "opt_int v \<Longrightarrow> bson v = v"
  by (cases v) simp_all

lemma ChartConfig_bson: "ChartConfig c = Inr cfg \<Longrightarrow> bson_doc cfg = cfg"
  by (auto simp: ChartConfig_def Let_def bson_is_str bson_opt_str bson_opt_int split: if_splits)

lemma persist_Inl: "persist E req i img coll = (Inl e, coll') \<Longrightarrow> coll' = coll"
  by (auto simp: persist_def split: sum.splits)

lemma persist_Inr:
  "persist E req i img coll = (Inr r, coll') \<Longrightarrow>
     \<exists>fn d cfg. dict_getitem req ''filename'' = Inr fn \<and> dict_getitem req ''data'' = Inr d
        \<and> ChartConfig (in_config i) = Inr cfg \<and> is_str fn \<and> is_str d \<and> db_reachable E
        \<and> coll' = coll @ [[(''id'', PStr (uuid4 E)), (''filename'', fn), (''data'', d),
                (''config'', PDict cfg), (''chart_image'', PStr img),
                (''timestamp'', PDatetime (utcnow E - utcnow E mod 1000)),
                (''_id'', PObjectId (object_id E))]]
        \<and> r = [(''id'', PStr (uuid4 E)), (''chart_image'', PStr img),
                (''message'', PStr ''Chart generated successfully'')]"
  by (auto simp: persist_def ChartData_def insert_one_def dict_get_def bson_is_str ChartConfig_bson
        split: sum.splits if_splits)

lemma try_generate_Inl: "try_generate E req w = (Inl e, w') \<Longrightarrow> charts w' = charts w"
  by (auto simp: try_generate_def split: sum.splits prod.splits dest: persist_Inl)

lemma try_generate_Inr:
  "try_generate E req w = (Inr r, w') \<Longrightarrow>
     \<exists>i img. read_request E req = Inr i \<and> render E i (figures w) = (Inr img, figures w')
        \<and> persist E req i img (charts w) = (Inr r, charts w')"
  by (auto simp: try_generate_def split: sum.splits prod.splits)

lemma generate_chart_Inl:
  "generate_chart E req w = (Inl e, w') \<Longrightarrow>
     \<exists>e'. try_generate E req w = (Inl e', w')
        \<and> e = HTTPException 500 (DetailOf ''Error generating chart: '' e')"
  by (auto simp: generate_chart_def split: sum.splits prod.splits)

lemma generate_chart_Inr:
  "generate_chart E req w = (Inr r, w') \<Longrightarrow> try_generate E req w = (Inr r, w')"
  by (auto simp: generate_chart_def split: sum.splits prod.splits)

text \<open>A bar chart of the departments of the sample frame, from the request to the store.\<close>

lemma sample_bar_run:
  "generate_chart (sample_env staff_df) (sample_request ''bar'' (PStr ''Department'') PNone)
       empty_world
     = (Inr [(''id'', PStr ''chart-1''), (''chart_image'', PStr ''PNG''),
             (''message'', PStr ''Chart generated successfully'')],
        \<lparr>figures = [],
         charts = [[(''id'', PStr ''chart-1''), (''filename'', PStr ''staff.csv''),
                    (''data'', PStr ''Department,Salary,Age ...''),
                    (''config'', PDict [(''chart_type'', PStr ''bar''),
                       (''x_column'', PStr ''Department''), (''y_column'', PNone),
                       (''color_scheme'', PStr ''viridis''), (''title'', PStr ''Chart''),
                       (''width'', PNum 800), (''height'', PNum 600)]),
                    (''chart_image'', PStr ''PNG''), (''timestamp'', PDatetime 1234000),
                    (''_id'', PObjectId 0)]]\<rparr>)"
  by (simp add: handler_defs branch_defs sample_defs)

lemma render_chart_calls_Inl:
  "chart_calls E (in_df i) (in_chart_type i) (in_x_column i) (in_y_column i) (in_color_scheme i) = Inl e
   \<Longrightarrow> isl (fst (render E i fs))"
  by (simp add: render_def split: sum.splits prod.splits option.splits)

lemma try_generate_render_Inl:
  "read_request E req = Inr i \<Longrightarrow> isl (fst (render E i (figures w)))
   \<Longrightarrow> isl (fst (try_generate E req w)) \<and> charts (snd (try_generate E req w)) = charts w"
  by (auto simp: try_generate_def split: sum.splits prod.splits)

lemma generate_chart_of_try_Inl:
  "isl (fst (try_generate E req w)) \<Longrightarrow>
     (\<exists>e. fst (generate_chart E req w) = Inl (HTTPException 500 (DetailOf ''Error generating chart: '' e)))
     \<and> snd (generate_chart E req w) = snd (try_generate E req w)"
  by (auto simp: generate_chart_def split: sum.splits prod.splits)

lemma bar_calls_missing_x: "isl (df_getitem df x) \<Longrightarrow> isl (bar_calls df x y scheme)"
  by (cases "df_getitem df x"; cases "has_y y df") (simp_all add: bar_calls_def)

lemma line_calls_missing_x: "isl (df_getitem df x) \<Longrightarrow> isl (line_calls df x y scheme)"
  by (cases "df_getitem df x"; cases "has_y y df") (simp_all add: line_calls_def)

lemma scatter_calls_missing_x: "isl (df_getitem df x) \<Longrightarrow> isl (scatter_calls df x y scheme)"
  by (cases "df_getitem df x"; cases "has_y y df") (simp_all add: scatter_calls_def)

lemma pie_calls_missing_x: "isl (df_getitem df x) \<Longrightarrow> isl (pie_calls E df x y scheme)"
  by (cases "df_getitem df x"; cases "has_y y df") (simp_all add: pie_calls_def pie_data_def)

lemma histogram_calls_missing_x: "isl (df_getitem df x) \<Longrightarrow> isl (histogram_calls df x scheme)"
  by (cases "df_getitem df x") (simp_all add: histogram_calls_def)

lemma chart_calls_missing_x:
  assumes "chart_type \<in> {PStr ''bar'', PStr ''line'', PStr ''scatter'', PStr ''pie'',
                          PStr ''histogram''}"
    and "isl (df_getitem df x)"
  shows "isl (chart_calls E df chart_type x y scheme)"
proof -
  from assms(1) consider "chart_type = PStr ''bar''" | "chart_type = PStr ''line''"
    | "chart_type = PStr ''scatter''" | "chart_type = PStr ''pie''"
    | "chart_type = PStr ''histogram''" by blast
  then show ?thesis
  proof cases
    case 1 with assms(2) show ?thesis by (simp add: chart_calls_def bar_calls_missing_x)
  next
    case 2 with assms(2) show ?thesis by (simp add: chart_calls_def line_calls_missing_x)
  next
    case 3 with assms(2) show ?thesis by (simp add: chart_calls_def scatter_calls_missing_x)
  next
    case 4 with assms(2) show ?thesis by (simp add: chart_calls_def pie_calls_missing_x)
  next
    case 5 with assms(2) show ?thesis by (simp add: chart_calls_def histogram_calls_missing_x)
  qed
qed

lemma chart_calls_scatter_no_y:
  "has_y y df \<noteq> Inr True \<Longrightarrow> isl (chart_calls E df (PStr ''scatter'') x y scheme)"
  by (cases "has_y y df") (auto simp: chart_calls_def scatter_calls_def)

lemma chart_calls_heatmap_few:
  "length (df_columns (select_dtypes [SelNumber] df)) < 2
   \<Longrightarrow> isl (chart_calls E df (PStr ''heatmap'') x y scheme)"
  by (simp add: chart_calls_def heatmap_calls_def)

lemma sample_read_request:
  "read_request (sample_env df) (sample_request t x y)
     = Inr \<lparr>in_df = df,
            in_config = [(''chart_type'', PStr t), (''x_column'', x), (''y_column'', y)],
            in_chart_type = PStr t, in_x_column = x, in_y_column = y,
            in_color_scheme = PStr ''viridis'', in_title = PStr ''Chart'',
            in_width = PNum 800, in_height = PNum 600\<rparr>"
  by (simp add: read_request_def sample_env_def sample_request_def dict_getitem_def dict_get_def)


lemma chart_calls_unknown:
  "chart_type \<notin> {PStr ''bar'', PStr ''line'', PStr ''scatter'', PStr ''pie'', PStr ''histogram'',
                   PStr ''heatmap''}
   \<Longrightarrow> chart_calls E df chart_type x y scheme = Inr []"
  by (simp add: chart_calls_def)

lemma find_append_None: "find P xs = None \<Longrightarrow> find P (xs @ ys) = find P ys"
  by (induction xs) (auto split: if_splits)

text \<open>A scatter plot of the sample frame, drawn while the store holds a record.\<close>

lemma sample_scatter_run:
  "generate_chart (sample_env staff_df) (sample_request ''scatter'' (PStr ''Age'') (PStr ''Salary''))
       stored_world
     = (Inr [(''id'', PStr ''chart-1''), (''chart_image'', PStr ''PNG''),
             (''message'', PStr ''Chart generated successfully'')],
        \<lparr>figures = [],
         charts = [sample_doc,
                   [(''id'', PStr ''chart-1''), (''filename'', PStr ''staff.csv''),
                    (''data'', PStr ''Department,Salary,Age ...''),
                    (''config'', PDict [(''chart_type'', PStr ''scatter''),
                       (''x_column'', PStr ''Age''), (''y_column'', PStr ''Salary''),
                       (''color_scheme'', PStr ''viridis''), (''title'', PStr ''Chart''),
                       (''width'', PNum 800), (''height'', PNum 600)]),
                    (''chart_image'', PStr ''PNG''), (''timestamp'', PDatetime 1234000),
                    (''_id'', PObjectId 0)]]\<rparr>)"
  by (simp add: handler_defs branch_defs sample_env_def sample_request_def staff_df_def
        stored_world_def)

section \<open>All or nothing\<close>

text \<open>
  Claim C8. A call of \<open>generate_chart\<close> has no partial success: either it raises and the
  \<^verbatim>\<open>charts\<close> collection is what it was, whichever step failed (reading the request,
  drawing, validating the record, the insert), or it answers with success and exactly one
  document was appended, which holds all fields of the record, the rendered image among
  them, and the image and the id of the answer are those of that document.
\<close>

theorem generate_chart_all_or_nothing:
  assumes "generate_chart E chart_request w = (r, w')"
  shows "(\<exists>e. r = Inl e \<and> charts w' = charts w)
       \<or> (\<exists>response doc image.
             r = Inr response \<and> charts w' = charts w @ [doc]
           \<and> map fst doc = [''id'', ''filename'', ''data'', ''config'', ''chart_image'',
                             ''timestamp'', ''_id'']
           \<and> map_of doc ''chart_image'' = Some (PStr image)
           \<and> map_of response ''chart_image'' = Some (PStr image)
           \<and> map_of response ''id'' = map_of doc ''id''
           \<and> map_of response ''message'' = Some (PStr ''Chart generated successfully''))"
proof (cases r)
  case (Inl e)
  with assms obtain e' where "try_generate E chart_request w = (Inl e', w')"
    by (auto dest: generate_chart_Inl)
  then have "charts w' = charts w" by (rule try_generate_Inl)
  with Inl show ?thesis by simp
next
  case (Inr response)
  with assms have "try_generate E chart_request w = (Inr response, w')"
    by (auto dest: generate_chart_Inr)
  then obtain i img where "persist E chart_request i img (charts w) = (Inr response, charts w')"
    by (auto dest: try_generate_Inr)
  from persist_Inr [OF this] Inr show ?thesis by auto
qed

theorem generate_chart_all_or_nothing_witness:
  "generate_chart (sample_env staff_df) (sample_request ''bar'' (PStr ''Department'') PNone)
       empty_world
     = (Inr [(''id'', PStr ''chart-1''), (''chart_image'', PStr ''PNG''),
             (''message'', PStr ''Chart generated successfully'')],
        \<lparr>figures = [],
         charts = [[(''id'', PStr ''chart-1''), (''filename'', PStr ''staff.csv''),
                    (''data'', PStr ''Department,Salary,Age ...''),
                    (''config'', PDict [(''chart_type'', PStr ''bar''),
                       (''x_column'', PStr ''Department''), (''y_column'', PNone),
                       (''color_scheme'', PStr ''viridis''), (''title'', PStr ''Chart''),
                       (''width'', PNum 800), (''height'', PNum 600)]),
                    (''chart_image'', PStr ''PNG''), (''timestamp'', PDatetime 1234000),
                    (''_id'', PObjectId 0)]]\<rparr>)
   \<and> ((\<exists>e. (Inr [(''id'', PStr ''chart-1''), (''chart_image'', PStr ''PNG''),
                 (''message'', PStr ''Chart generated successfully'')] :: exn + dict) = Inl e
           \<and> charts \<lparr>figures = [],
         charts = [[(''id'', PStr ''chart-1''), (''filename'', PStr ''staff.csv''),
                    (''data'', PStr ''Department,Salary,Age ...''),
                    (''config'', PDict [(''chart_type'', PStr ''bar''),
                       (''x_column'', PStr ''Department''), (''y_column'', PNone),
                       (''color_scheme'', PStr ''viridis''), (''title'', PStr ''Chart''),
                       (''width'', PNum 800), (''height'', PNum 600)]),
                    (''chart_image'', PStr ''PNG''), (''timestamp'', PDatetime 1234000),
                    (''_id'', PObjectId 0)]]\<rparr> = charts empty_world)
       \<or> (\<exists>response doc image.
             (Inr [(''id'', PStr ''chart-1''), (''chart_image'', PStr ''PNG''),
                 (''message'', PStr ''Chart generated successfully'')] :: exn + dict) = Inr response
           \<and> charts \<lparr>figures = [],
         charts = [[(''id'', PStr ''chart-1''), (''filename'', PStr ''staff.csv''),
                    (''data'', PStr ''Department,Salary,Age ...''),
                    (''config'', PDict [(''chart_type'', PStr ''bar''),
                       (''x_column'', PStr ''Department''), (''y_column'', PNone),
                       (''color_scheme'', PStr ''viridis''), (''title'', PStr ''Chart''),
                       (''width'', PNum 800), (''height'', PNum 600)]),
                    (''chart_image'', PStr ''PNG''), (''timestamp'', PDatetime 1234000),
                    (''_id'', PObjectId 0)]]\<rparr> = charts empty_world @ [doc]
           \<and> map fst doc = [''id'', ''filename'', ''data'', ''config'', ''chart_image'',
                             ''timestamp'', ''_id'']
           \<and> map_of doc ''chart_image'' = Some (PStr image)
           \<and> map_of response ''chart_image'' = Some (PStr image)
           \<and> map_of response ''id'' = map_of doc ''id''
           \<and> map_of response ''message'' = Some (PStr ''Chart generated successfully'')))"
  using sample_bar_run generate_chart_all_or_nothing [OF sample_bar_run] by (rule conjI)

section \<open>Requests that cannot be drawn\<close>

text \<open>
  Claim C1, as the code has it. Take a request that reads well and has a user-input error:
  the x column is not a column of the data (for the five chart types that read it), or a
  scatter plot has no usable y column, or a heatmap has fewer than two numeric columns.
  Then the call raises an \<open>HTTPException\<close> and the \<^verbatim>\<open>charts\<close> collection is
  unchanged. When the x column is missing in a bar, line, pie or histogram request, the
  exception is the one of the handler's \<^verbatim>\<open>except Exception\<close> clause: status 500,
  detail \<^verbatim>\<open>Error generating chart: ...\<close>. The status is 500, not 400.
\<close>

theorem generate_chart_user_error:
  assumes rd: "read_request E chart_request = Inr i"
    and bad: "(in_chart_type i \<in> {PStr ''bar'', PStr ''line'', PStr ''scatter'', PStr ''pie'',
                                  PStr ''histogram''}
               \<and> isl (df_getitem (in_df i) (in_x_column i)))
            \<or> (in_chart_type i = PStr ''scatter''
               \<and> has_y (in_y_column i) (in_df i) \<noteq> Inr True)
            \<or> (in_chart_type i = PStr ''heatmap''
               \<and> length (df_columns (select_dtypes [SelNumber] (in_df i))) < 2)"
  shows "(\<exists>status detail.
            fst (generate_chart E chart_request w) = Inl (HTTPException status detail))
       \<and> charts (snd (generate_chart E chart_request w)) = charts w
       \<and> (in_chart_type i \<in> {PStr ''bar'', PStr ''line'', PStr ''pie'', PStr ''histogram''}
            \<and> isl (df_getitem (in_df i) (in_x_column i))
          \<longrightarrow> (\<exists>e. fst (generate_chart E chart_request w)
                     = Inl (HTTPException 500 (DetailOf ''Error generating chart: '' e))))"
proof -
  let ?cc = "chart_calls E (in_df i) (in_chart_type i) (in_x_column i) (in_y_column i)
               (in_color_scheme i)"
  from bad have "isl ?cc"
  proof (elim disjE conjE)
    assume "in_chart_type i \<in> {PStr ''bar'', PStr ''line'', PStr ''scatter'', PStr ''pie'',
              PStr ''histogram''}" "isl (df_getitem (in_df i) (in_x_column i))"
    then show ?thesis by (rule chart_calls_missing_x)
  next
    assume "in_chart_type i = PStr ''scatter''" "has_y (in_y_column i) (in_df i) \<noteq> Inr True"
    then show ?thesis by (simp add: chart_calls_scatter_no_y)
  next
    assume "in_chart_type i = PStr ''heatmap''"
      "length (df_columns (select_dtypes [SelNumber] (in_df i))) < 2"
    then show ?thesis by (simp add: chart_calls_heatmap_few)
  qed
  then obtain e where "?cc = Inl e" by (cases ?cc) simp_all
  then have "isl (fst (render E i (figures w)))" by (rule render_chart_calls_Inl)
  from try_generate_render_Inl [OF rd this]
  have t: "isl (fst (try_generate E chart_request w))"
    and c: "charts (snd (try_generate E chart_request w)) = charts w" by simp_all
  from generate_chart_of_try_Inl [OF t]
  obtain e' where g: "fst (generate_chart E chart_request w)
                        = Inl (HTTPException 500 (DetailOf ''Error generating chart: '' e'))"
    and s: "snd (generate_chart E chart_request w) = snd (try_generate E chart_request w)"
    by blast
  from g have "\<exists>status detail.
      fst (generate_chart E chart_request w) = Inl (HTTPException status detail)" by blast
  moreover from s c have "charts (snd (generate_chart E chart_request w)) = charts w" by simp
  moreover from g have "\<exists>e. fst (generate_chart E chart_request w)
                     = Inl (HTTPException 500 (DetailOf ''Error generating chart: '' e))" by blast
  ultimately show ?thesis by blast
qed

theorem generate_chart_user_error_witness:
  "isl (df_getitem staff_df (PStr ''Nope''))
   \<and> (\<exists>e. fst (generate_chart (sample_env staff_df)
                  (sample_request ''histogram'' (PStr ''Nope'') PNone) empty_world)
             = Inl (HTTPException 500 (DetailOf ''Error generating chart: '' e)))
   \<and> charts (snd (generate_chart (sample_env staff_df)
                  (sample_request ''histogram'' (PStr ''Nope'') PNone) empty_world))
       = charts empty_world"
proof -
  have x: "isl (df_getitem staff_df (PStr ''Nope''))"
    by (simp add: df_getitem_def staff_df_def)
  from generate_chart_user_error [OF sample_read_request, of staff_df "''histogram''"
        "PStr ''Nope''" PNone empty_world] x
  show ?thesis by simp
qed

text \<open>
  The claim as worded fails: a bar chart over a column that the data does not have is
  answered with status 500, the \<^verbatim>\<open>KeyError\<close> of \<^verbatim>\<open>df[x_column]\<close> in the detail.
\<close>

theorem generate_chart_missing_x_is_500:
  "fst (generate_chart (sample_env staff_df) (sample_request ''bar'' (PStr ''Nope'') PNone)
          empty_world)
     = Inl (HTTPException 500 (DetailOf ''Error generating chart: '' (KeyError (PStr ''Nope''))))"
  by (simp add: handler_defs branch_defs sample_defs)

section \<open>A chart type the handler does not know\<close>

text \<open>
  Claim C9. When \<^verbatim>\<open>chart_type\<close> is none of the six supported values and the rest of
  the request is in order (the payload decodes and parses, width and height are numbers,
  matplotlib accepts the figure, the title and the export, the record validates, the store
  answers), the call succeeds: no branch draws, the image is that of a figure holding the
  title alone, one record with that image is appended to the store (its timestamp kept to
  the millisecond), the figure is closed again, and the answer is the success message.
\<close>

theorem generate_chart_unknown_type:
  assumes rd: "read_request E chart_request = Inr i"
    and ty: "in_chart_type i \<notin> {PStr ''bar'', PStr ''line'', PStr ''scatter'', PStr ''pie'',
                                  PStr ''histogram'', PStr ''heatmap''}"
    and w: "py_div100 (in_width i) = Inr fw" and h: "py_div100 (in_height i) = Inr fh"
    and mpl: "mpl_raises E (Figure fw fh) = None" "mpl_raises E (Title (in_title i)) = None"
             "mpl_raises E Tight_layout = None" "mpl_raises E Savefig = None"
    and fn: "dict_getitem chart_request ''filename'' = Inr file_name" "is_str file_name"
    and pl: "dict_getitem chart_request ''data'' = Inr payload" "is_str payload"
    and cfg: "ChartConfig (in_config i) = Inr config"
    and db: "db_reachable E"
  shows "generate_chart E chart_request w
           = (Inr [(''id'', PStr (uuid4 E)),
                   (''chart_image'',
                    PStr (png_base64 E \<lparr>fig_size = (fw, fh),
                                          drawn = [Title (in_title i), Tight_layout]\<rparr>)),
                   (''message'', PStr ''Chart generated successfully'')],
              \<lparr>figures = figures w,
               charts = charts w @
                 [[(''id'', PStr (uuid4 E)), (''filename'', file_name), (''data'', payload),
                   (''config'', PDict config),
                   (''chart_image'',
                    PStr (png_base64 E \<lparr>fig_size = (fw, fh),
                                          drawn = [Title (in_title i), Tight_layout]\<rparr>)),
                   (''timestamp'', PDatetime (utcnow E - utcnow E mod 1000)),
                   (''_id'', PObjectId (object_id E))]]\<rparr>)"
proof -
  let ?img = "png_base64 E \<lparr>fig_size = (fw, fh), drawn = [Title (in_title i), Tight_layout]\<rparr>"
  have cc: "chart_calls E (in_df i) (in_chart_type i) (in_x_column i) (in_y_column i)
              (in_color_scheme i) = Inr []"
    using ty by (rule chart_calls_unknown)
  have r: "render E i (figures w) = (Inr ?img, figures w)"
    by (simp add: render_def w h mpl cc draw_def gcf_def current_def)
  have p: "persist E chart_request i ?img (charts w)
             = (Inr [(''id'', PStr (uuid4 E)), (''chart_image'', PStr ?img),
                     (''message'', PStr ''Chart generated successfully'')],
                charts w @
                 [[(''id'', PStr (uuid4 E)), (''filename'', file_name), (''data'', payload),
                   (''config'', PDict config), (''chart_image'', PStr ?img),
                   (''timestamp'', PDatetime (utcnow E - utcnow E mod 1000)),
                   (''_id'', PObjectId (object_id E))]])"
    by (simp add: persist_def fn pl cfg db ChartData_def insert_one_def dict_get_def bson_is_str
          ChartConfig_bson [OF cfg])
  show ?thesis
    by (simp add: generate_chart_def try_generate_def rd r p)
qed

theorem generate_chart_unknown_type_witness:
  "PStr ''radar'' \<notin> {PStr ''bar'', PStr ''line'', PStr ''scatter'', PStr ''pie'',
                       PStr ''histogram'', PStr ''heatmap''}
   \<and> generate_chart (sample_env staff_df) (sample_request ''radar'' (PStr ''Department'') PNone)
        empty_world
     = (Inr [(''id'', PStr ''chart-1''), (''chart_image'', PStr ''PNG''),
             (''message'', PStr ''Chart generated successfully'')],
        \<lparr>figures = [],
         charts = [[(''id'', PStr ''chart-1''), (''filename'', PStr ''staff.csv''),
                    (''data'', PStr ''Department,Salary,Age ...''),
                    (''config'', PDict [(''chart_type'', PStr ''radar''),
                       (''x_column'', PStr ''Department''), (''y_column'', PNone),
                       (''color_scheme'', PStr ''viridis''), (''title'', PStr ''Chart''),
                       (''width'', PNum 800), (''height'', PNum 600)]),
                    (''chart_image'', PStr ''PNG''), (''timestamp'', PDatetime 1234000),
                    (''_id'', PObjectId 0)]]\<rparr>)"
proof -
  let ?E = "sample_env staff_df"
  let ?R = "sample_request ''radar'' (PStr ''Department'') PNone"
  note rd = sample_read_request [of staff_df "''radar''" "PStr ''Department''" PNone]
  have g: "generate_chart ?E ?R empty_world
      = (Inr [(''id'', PStr (uuid4 ?E)),
              (''chart_image'', PStr (png_base64 ?E \<lparr>fig_size = (8, 6),
                   drawn = [Title (PStr ''Chart''), Tight_layout]\<rparr>)),
              (''message'', PStr ''Chart generated successfully'')],
         \<lparr>figures = figures empty_world,
          charts = charts empty_world @
            [[(''id'', PStr (uuid4 ?E)), (''filename'', PStr ''staff.csv''),
              (''data'', PStr ''Department,Salary,Age ...''),
              (''config'', PDict [(''chart_type'', PStr ''radar''),
                       (''x_column'', PStr ''Department''), (''y_column'', PNone),
                       (''color_scheme'', PStr ''viridis''), (''title'', PStr ''Chart''),
                       (''width'', PNum 800), (''height'', PNum 600)]),
              (''chart_image'', PStr (png_base64 ?E \<lparr>fig_size = (8, 6),
                   drawn = [Title (PStr ''Chart''), Tight_layout]\<rparr>)),
              (''timestamp'', PDatetime (utcnow ?E - utcnow ?E mod 1000)),
              (''_id'', PObjectId (object_id ?E))]]\<rparr>)"
    using generate_chart_unknown_type [OF rd, of 8 6 "PStr ''staff.csv''"
        "PStr ''Department,Salary,Age ...''"
        "[(''chart_type'', PStr ''radar''), (''x_column'', PStr ''Department''),
          (''y_column'', PNone), (''color_scheme'', PStr ''viridis''),
          (''title'', PStr ''Chart''), (''width'', PNum 800), (''height'', PNum 600)]"
        empty_world]
    by (simp add: sample_env_def sample_request_def dict_getitem_def dict_get_def ChartConfig_def)
  then show ?thesis by (simp add: sample_env_def empty_world_def)
qed

section \<open>Saving a chart and reading it back\<close>

lemma read_request_config:
  "read_request E req = Inr i \<Longrightarrow> dict_getitem req ''config'' = Inr (PDict (in_config i))"
  by (auto simp: read_request_def split: sum.splits pyval.splits)

text \<open>
  Claim C7, as the code has it. After a successful \<open>generate_chart\<close> whose new id is not
  the id of a record already in the store (ids are random and taken not to collide),
  \<open>get_chart\<close> on the id of the answer returns the record that was saved,
  \<^verbatim>\<open>chart_data.dict()\<close>, without the store's \<^verbatim>\<open>_id\<close>: the id of the answer, the
  file name and the source data of the request, the validated configuration of the
  request, and the image that was rendered and returned. The timestamp comes back cut to
  the millisecond: it equals the saved one only when that has no microseconds.
\<close>

theorem save_then_get_chart:
  assumes gen: "generate_chart E chart_request w = (Inr response, w')"
    and fresh: "\<forall>d \<in> set (charts w). map_of d ''id'' \<noteq> Some (PStr (uuid4 E))"
    and db: "db_reachable E'"
  shows "\<exists>i file_name payload config image.
           read_request E chart_request = Inr i
         \<and> fst (render E i (figures w)) = Inr image
         \<and> dict_getitem chart_request ''filename'' = Inr file_name
         \<and> dict_getitem chart_request ''data'' = Inr payload
         \<and> dict_getitem chart_request ''config'' = Inr (PDict (in_config i))
         \<and> ChartConfig (in_config i) = Inr config
         \<and> response = [(''id'', PStr (uuid4 E)), (''chart_image'', PStr image),
                         (''message'', PStr ''Chart generated successfully'')]
         \<and> ChartData E file_name payload config image
             = Inr [(''id'', PStr (uuid4 E)), (''filename'', file_name), (''data'', payload),
                    (''config'', PDict config), (''chart_image'', PStr image),
                    (''timestamp'', PDatetime (utcnow E))]
         \<and> get_chart E' (uuid4 E) w'
             = Inr [(''id'', PStr (uuid4 E)), (''filename'', file_name), (''data'', payload),
                    (''config'', PDict config), (''chart_image'', PStr image),
                    (''timestamp'', PDatetime (utcnow E - utcnow E mod 1000))]"
proof -
  from gen have "try_generate E chart_request w = (Inr response, w')"
    by (rule generate_chart_Inr)
  then obtain i img where rd: "read_request E chart_request = Inr i"
    and rn: "render E i (figures w) = (Inr img, figures w')"
    and ps: "persist E chart_request i img (charts w) = (Inr response, charts w')"
    by (auto dest: try_generate_Inr)
  from persist_Inr [OF ps] obtain fn d cfg where
    f: "dict_getitem chart_request ''filename'' = Inr fn"
    and p: "dict_getitem chart_request ''data'' = Inr d"
    and k: "ChartConfig (in_config i) = Inr cfg"
    and s: "is_str fn" "is_str d"
    and c: "charts w' = charts w @ [[(''id'', PStr (uuid4 E)), (''filename'', fn), (''data'', d),
                (''config'', PDict cfg), (''chart_image'', PStr img),
                (''timestamp'', PDatetime (utcnow E - utcnow E mod 1000)),
                (''_id'', PObjectId (object_id E))]]"
    and r: "response = [(''id'', PStr (uuid4 E)), (''chart_image'', PStr img),
                (''message'', PStr ''Chart generated successfully'')]"
    by blast
  let ?kept = "[(''id'', PStr (uuid4 E)), (''filename'', fn), (''data'', d),
                (''config'', PDict cfg), (''chart_image'', PStr img),
                (''timestamp'', PDatetime (utcnow E - utcnow E mod 1000))]"
  have cd: "ChartData E fn d cfg img
              = Inr [(''id'', PStr (uuid4 E)), (''filename'', fn), (''data'', d),
                     (''config'', PDict cfg), (''chart_image'', PStr img),
                     (''timestamp'', PDatetime (utcnow E))]"
    using s by (simp add: ChartData_def)
  from fresh have nf: "find (\<lambda>d. map_of d ''id'' = Some (PStr (uuid4 E))) (charts w) = None"
    by (simp add: find_None_iff)
  have fo: "find_one (charts w') (uuid4 E) = Some (?kept @ [(''_id'', PObjectId (object_id E))])"
    by (simp add: find_one_def c find_append_None [OF nf])
  have g: "get_chart E' (uuid4 E) w' = Inr ?kept"
    by (simp add: get_chart_def db fo strip_id_def)
  from rn have im: "fst (render E i (figures w)) = Inr img" by simp
  show ?thesis
    by (intro exI [of _ i] exI [of _ fn] exI [of _ d] exI [of _ cfg] exI [of _ img] conjI
          rd im f p read_request_config [OF rd] k r cd g)
qed

theorem save_then_get_chart_witness:
  "map (\<lambda>d. map_of d ''id'') (charts stored_world) = [Some (PStr ''chart-0'')]
   \<and> (\<exists>config.
         ChartConfig [(''chart_type'', PStr ''scatter''), (''x_column'', PStr ''Age''),
                      (''y_column'', PStr ''Salary'')] = Inr config
       \<and> get_chart (sample_env staff_df) ''chart-1''
           (snd (generate_chart (sample_env staff_df)
                   (sample_request ''scatter'' (PStr ''Age'') (PStr ''Salary'')) stored_world))
         = Inr [(''id'', PStr ''chart-1''), (''filename'', PStr ''staff.csv''),
                (''data'', PStr ''Department,Salary,Age ...''), (''config'', PDict config),
                (''chart_image'', PStr ''PNG''), (''timestamp'', PDatetime 1234000)])"
proof -
  let ?E = "sample_env staff_df"
  let ?R = "sample_request ''scatter'' (PStr ''Age'') (PStr ''Salary'')"
  have fresh: "\<forall>d \<in> set (charts stored_world). map_of d ''id'' \<noteq> Some (PStr (uuid4 ?E))"
    by (simp add: stored_world_def sample_doc_def sample_env_def)
  have db: "db_reachable ?E" by (simp add: sample_env_def)
  have gen: "generate_chart ?E ?R stored_world
               = (Inr [(''id'', PStr ''chart-1''), (''chart_image'', PStr ''PNG''),
                       (''message'', PStr ''Chart generated successfully'')],
                  snd (generate_chart ?E ?R stored_world))"
    by (simp add: sample_scatter_run)
  from save_then_get_chart [OF gen fresh db]
  obtain i file_name payload config image where
    rd: "read_request ?E ?R = Inr i"
    and f: "dict_getitem ?R ''filename'' = Inr file_name"
    and p: "dict_getitem ?R ''data'' = Inr payload"
    and k: "ChartConfig (in_config i) = Inr config"
    and r: "[(''id'', PStr ''chart-1''), (''chart_image'', PStr ''PNG''),
             (''message'', PStr ''Chart generated successfully'')]
            = [(''id'', PStr (uuid4 ?E)), (''chart_image'', PStr image),
               (''message'', PStr ''Chart generated successfully'')]"
    and g: "get_chart ?E (uuid4 ?E) (snd (generate_chart ?E ?R stored_world))
             = Inr [(''id'', PStr (uuid4 ?E)), (''filename'', file_name), (''data'', payload),
                    (''config'', PDict config), (''chart_image'', PStr image),
                    (''timestamp'', PDatetime (utcnow ?E - utcnow ?E mod 1000))]"
    by (elim exE conjE) (rule that, assumption+)
  from rd have ic: "in_config i = [(''chart_type'', PStr ''scatter''), (''x_column'', PStr ''Age''),
                      (''y_column'', PStr ''Salary'')]"
    by (auto simp: sample_read_request)
  from f have fv: "file_name = PStr ''staff.csv''"
    by (simp add: sample_request_def dict_getitem_def)
  from p have pv: "payload = PStr ''Department,Salary,Age ...''"
    by (simp add: sample_request_def dict_getitem_def)
  from r have iv: "image = ''PNG''" by simp
  have u: "uuid4 ?E = ''chart-1''" "utcnow ?E - utcnow ?E mod 1000 = 1234000"
    by (simp_all add: sample_env_def)
  from g have g': "get_chart ?E ''chart-1'' (snd (generate_chart ?E ?R stored_world))
         = Inr [(''id'', PStr ''chart-1''), (''filename'', PStr ''staff.csv''),
                (''data'', PStr ''Department,Salary,Age ...''), (''config'', PDict config),
                (''chart_image'', PStr ''PNG''), (''timestamp'', PDatetime 1234000)]"
    unfolding u fv pv iv .
  from k have k': "ChartConfig [(''chart_type'', PStr ''scatter''), (''x_column'', PStr ''Age''),
                      (''y_column'', PStr ''Salary'')] = Inr config"
    unfolding ic .
  have f': "map (\<lambda>d. map_of d ''id'') (charts stored_world) = [Some (PStr ''chart-0'')]"
    by (simp add: stored_world_def sample_doc_def)
  have "\<exists>config.
         ChartConfig [(''chart_type'', PStr ''scatter''), (''x_column'', PStr ''Age''),
                      (''y_column'', PStr ''Salary'')] = Inr config
       \<and> get_chart ?E ''chart-1'' (snd (generate_chart ?E ?R stored_world))
         = Inr [(''id'', PStr ''chart-1''), (''filename'', PStr ''staff.csv''),
                (''data'', PStr ''Department,Salary,Age ...''), (''config'', PDict config),
                (''chart_image'', PStr ''PNG''), (''timestamp'', PDatetime 1234000)]"
    by (rule exI [of _ config], rule conjI [OF k' g'])
  with f' show ?thesis by (rule conjI)
qed

text \<open>
  The claim as worded fails in the timestamp: the record is saved with the time 1234567
  microseconds and comes back with 1234000.
\<close>

theorem get_chart_timestamp_truncated:
  "ChartData (sample_env staff_df) (PStr ''staff.csv'') (PStr ''Department,Salary,Age ...'')
       [(''chart_type'', PStr ''scatter''), (''x_column'', PStr ''Age''),
        (''y_column'', PStr ''Salary''), (''color_scheme'', PStr ''viridis''),
        (''title'', PStr ''Chart''), (''width'', PNum 800), (''height'', PNum 600)] ''PNG''
     = Inr [(''id'', PStr ''chart-1''), (''filename'', PStr ''staff.csv''),
            (''data'', PStr ''Department,Salary,Age ...''),
            (''config'', PDict [(''chart_type'', PStr ''scatter''), (''x_column'', PStr ''Age''),
               (''y_column'', PStr ''Salary''), (''color_scheme'', PStr ''viridis''),
               (''title'', PStr ''Chart''), (''width'', PNum 800), (''height'', PNum 600)]),
            (''chart_image'', PStr ''PNG''), (''timestamp'', PDatetime 1234567)]
   \<and> get_chart (sample_env staff_df) ''chart-1''
         (snd (generate_chart (sample_env staff_df)
                 (sample_request ''scatter'' (PStr ''Age'') (PStr ''Salary'')) stored_world))
     = Inr [(''id'', PStr ''chart-1''), (''filename'', PStr ''staff.csv''),
            (''data'', PStr ''Department,Salary,Age ...''),
            (''config'', PDict [(''chart_type'', PStr ''scatter''), (''x_column'', PStr ''Age''),
               (''y_column'', PStr ''Salary''), (''color_scheme'', PStr ''viridis''),
               (''title'', PStr ''Chart''), (''width'', PNum 800), (''height'', PNum 600)]),
            (''chart_image'', PStr ''PNG''), (''timestamp'', PDatetime 1234000)]"
  unfolding sample_scatter_run snd_conv
  by (simp add: ChartData_def get_chart_def find_one_def strip_id_def sample_env_def
        sample_doc_def)

section \<open>Listing the stored charts\<close>

lemma strip_id_no_id: "map_of (strip_id d) ''_id'' = None"
  by (induction d) (auto simp: strip_id_def)

lemma strip_id_other: "k \<noteq> ''_id'' \<Longrightarrow> map_of (strip_id d) k = map_of d k"
  by (induction d) (auto simp: strip_id_def)

text \<open>
  Claim C6, as the code has it. When the store answers, \<open>get_charts\<close> returns the first
  1000 stored records in stored order (all of them when the store holds at most 1000),
  each without the store's \<^verbatim>\<open>_id\<close> and with every other field as stored.
\<close>

theorem get_charts_first_1000:
  assumes "db_reachable E"
  shows "\<exists>rs. get_charts E w = Inr rs
            \<and> rs = map strip_id (take 1000 (charts w))
            \<and> length rs = min 1000 (length (charts w))
            \<and> (length (charts w) \<le> 1000 \<longrightarrow> rs = map strip_id (charts w))
            \<and> (\<forall>r \<in> set rs. map_of r ''_id'' = None)
            \<and> (\<forall>i k. i < length rs \<and> k \<noteq> ''_id''
                  \<longrightarrow> map_of (rs ! i) k = map_of (charts w ! i) k)"
  using assms by (auto simp: get_charts_def strip_id_no_id strip_id_other)

theorem get_charts_first_1000_witness:
  "get_charts (sample_env staff_df) stored_world
     = Inr [[(''id'', PStr ''chart-0''), (''filename'', PStr ''staff.csv'')]]"
proof -
  have "db_reachable (sample_env staff_df)" by (simp add: sample_env_def)
  from get_charts_first_1000 [OF this, of stored_world]
  show ?thesis by (auto simp: stored_world_def sample_doc_def strip_id_def)
qed

text \<open>
  The claim as worded fails: of 1001 stored records, \<^verbatim>\<open>to_list(1000)\<close> returns 1000.
\<close>

theorem get_charts_drops_record_1001:
  "length (charts full_world) = 1001
   \<and> get_charts (sample_env staff_df) full_world
       = Inr (replicate 1000 [(''id'', PStr ''chart-0''), (''filename'', PStr ''staff.csv'')])"
  by (simp add: get_charts_def full_world_def sample_env_def sample_doc_def strip_id_def)

section \<open>Classifying the columns of an upload\<close>

lemma numeric_names:
  "set (df_columns (select_dtypes [SelNumber] df)) = name ` {c \<in> set df. dtype_matches SelNumber (dtype c)}"
  by (simp add: df_columns_def select_dtypes_def)

lemma categorical_names:
  "set (df_columns (select_dtypes [SelObject, SelCategory] df))
     = name ` {c \<in> set df. dtype c = Object}"
  by (simp add: df_columns_def select_dtypes_def)

lemma numeric_categorical_disjoint:
  assumes "distinct (df_columns df)"
  shows "set (df_columns (select_dtypes [SelNumber] df))
           \<inter> set (df_columns (select_dtypes [SelObject, SelCategory] df)) = {}"
proof -
  from assms have inj: "inj_on name (set df)" by (simp add: df_columns_def distinct_map)
  have "False" if "a \<in> set df" "dtype_matches SelNumber (dtype a)" "b \<in> set df" "dtype b = Object"
    "name a = name b" for a b
  proof -
    from inj that(5,1,3) have "a = b" by (rule inj_onD)
    with that(2,4) show False by simp
  qed
  then show ?thesis unfolding numeric_names categorical_names by blast
qed

lemma dtype_classes: "(dtype_matches SelNumber d \<or> d = Object) = (d \<noteq> Bool)"
  by (cases d) simp_all

lemma numeric_categorical_union:
  "set (df_columns (select_dtypes [SelNumber] df))
     \<union> set (df_columns (select_dtypes [SelObject, SelCategory] df))
   = name ` {c \<in> set df. dtype c \<noteq> Bool}"
proof -
  have "{c \<in> set df. dtype_matches SelNumber (dtype c)} \<union> {c \<in> set df. dtype c = Object}
          = {c \<in> set df. dtype c \<noteq> Bool}"
    using dtype_classes by blast
  then show ?thesis unfolding numeric_names categorical_names
    by (simp only: image_Un [symmetric])
qed

text \<open>
  Claim C3, as the code has it. For a CSV upload that parses (to a frame with distinct
  column names, as the parser makes them), the numeric and the categorical columns are
  disjoint, and together they are the columns whose dtype is not \<^verbatim>\<open>bool\<close>: a
  column of booleans is in neither list. When the frame has no boolean column, the two
  lists together are all the columns.
\<close>

theorem upload_csv_classification:
  assumes csv: "endswith file_name ''.csv''"
    and dec: "utf8_decode E content = Inr text"
    and parse: "read_csv E text = Inr df"
    and names: "distinct (df_columns df)"
  shows "\<exists>info. upload_csv E file_name content = Inr info
           \<and> columns info = df_columns df
           \<and> set (numeric_columns info) \<inter> set (categorical_columns info) = {}
           \<and> set (numeric_columns info) \<union> set (categorical_columns info)
               = name ` {c \<in> set df. dtype c \<noteq> Bool}
           \<and> (Bool \<notin> dtype ` set df
                \<longrightarrow> set (numeric_columns info) \<union> set (categorical_columns info)
                      = set (columns info))"
proof -
  let ?info = "\<lparr>filename = file_name, data = b64encode E content, columns = df_columns df,
                 numeric_columns = df_columns (select_dtypes [SelNumber] df),
                 categorical_columns = df_columns (select_dtypes [SelObject, SelCategory] df),
                 preview = head_records 10 df, row_count = df_len df,
                 column_count = length (df_columns df)\<rparr>"
  have up: "upload_csv E file_name content = Inr ?info"
    by (simp add: upload_csv_def csv dec parse)
  have all: "name ` {c \<in> set df. dtype c \<noteq> Bool} = set (df_columns df)"
    if "Bool \<notin> dtype ` set df"
  proof -
    from that have "{c \<in> set df. dtype c \<noteq> Bool} = set df" by force
    then show ?thesis by (simp add: df_columns_def)
  qed
  have "columns ?info = df_columns df" by simp
  moreover have "set (numeric_columns ?info) \<inter> set (categorical_columns ?info) = {}"
    using numeric_categorical_disjoint [OF names] by simp
  moreover have un: "set (numeric_columns ?info) \<union> set (categorical_columns ?info)
                  = name ` {c \<in> set df. dtype c \<noteq> Bool}"
    using numeric_categorical_union [of df] by simp
  moreover have "Bool \<notin> dtype ` set df
                \<longrightarrow> set (numeric_columns ?info) \<union> set (categorical_columns ?info)
                      = set (columns ?info)"
    using all un by simp
  ultimately show ?thesis using up by blast
qed

theorem upload_csv_classification_witness:
  "\<exists>info. upload_csv (sample_env staff_df) ''staff.csv'' ''Department,Salary,Age ...'' = Inr info
      \<and> columns info = [''Department'', ''Salary'', ''Age'']
      \<and> set (numeric_columns info) \<inter> set (categorical_columns info) = {}
      \<and> set (numeric_columns info) \<union> set (categorical_columns info)
           = {''Department'', ''Salary'', ''Age''}"
proof -
  let ?E = "sample_env staff_df"
  have csv: "endswith ''staff.csv'' ''.csv''" by (simp add: endswith_def)
  have dec: "utf8_decode ?E ''Department,Salary,Age ...'' = Inr ''Department,Salary,Age ...''"
    by (simp add: sample_env_def)
  have parse: "read_csv ?E ''Department,Salary,Age ...'' = Inr staff_df"
    by (simp add: sample_env_def)
  have names: "distinct (df_columns staff_df)" by (simp add: df_columns_def staff_df_def)
  have cols: "df_columns staff_df = [''Department'', ''Salary'', ''Age'']"
    by (simp add: df_columns_def staff_df_def)
  have img: "name ` {c \<in> set staff_df. dtype c \<noteq> Bool} = {''Department'', ''Salary'', ''Age''}"
  proof -
    have "{c \<in> set staff_df. dtype c \<noteq> Bool} = set (filter (\<lambda>c. dtype c \<noteq> Bool) staff_df)"
      by simp
    then show ?thesis by (simp add: staff_df_def)
  qed
  from upload_csv_classification [OF csv dec parse names]
  show ?thesis unfolding cols img by blast
qed

text \<open>
  The claim as worded fails: the one column of the upload \<^verbatim>\<open>flag\<close> /
  \<^verbatim>\<open>True\<close> / \<^verbatim>\<open>False\<close> is neither numeric nor categorical.
\<close>

theorem upload_csv_bool_column_unclassified:
  "upload_csv (sample_env flag_df) ''flags.csv'' ''flag\<newline>True\<newline>False\<newline>''
     = Inr \<lparr>filename = ''flags.csv'', data = ''flag\<newline>True\<newline>False\<newline>'',
            columns = [''flag''], numeric_columns = [], categorical_columns = [],
            preview = [[(''flag'', Flag True)], [(''flag'', Flag False)]],
            row_count = 2, column_count = 1\<rparr>"
  by (simp add: upload_csv_def sample_env_def flag_df_def endswith_def df_columns_def
        select_dtypes_def head_records_def df_len_def)

section \<open>The figure of a failed call\<close>

lemma plt_drawing: "is_drawing c \<Longrightarrow> \<exists>f'. plt c (f # fs) = f' # fs"
  by (cases c) (simp_all add: is_drawing_def draw_def gcf_def)

lemma run_calls_drawing:
  "list_all is_drawing cs \<Longrightarrow> run_calls E cs (f # fs) = (r, fs') \<Longrightarrow> \<exists>f'. fs' = f' # fs"
proof (induction cs arbitrary: f)
  case Nil
  then show ?case by auto
next
  case (Cons c cs)
  from Cons.prems(1) have c: "is_drawing c" and cs: "list_all is_drawing cs" by simp_all
  show ?case
  proof (cases "mpl_raises E c")
    case (Some e)
    with Cons.prems(2) show ?thesis by auto
  next
    case None
    from plt_drawing [OF c] obtain f' where p: "plt c (f # fs) = f' # fs" by blast
    from Cons.prems(2) None p have "run_calls E cs (f' # fs) = (r, fs')" by simp
    from Cons.IH [OF cs this] show ?thesis .
  qed
qed

lemma bar_calls_drawing: "bar_calls df x y s = Inr cs \<Longrightarrow> list_all is_drawing cs"
  by (cases "has_y y df"; cases "df_getitem df x"; cases "df_getitem df y")
     (auto simp: bar_calls_def is_drawing_def Let_def split: if_splits)

lemma line_calls_drawing: "line_calls df x y s = Inr cs \<Longrightarrow> list_all is_drawing cs"
  by (cases "has_y y df"; cases "df_getitem df x"; cases "df_getitem df y")
     (auto simp: line_calls_def is_drawing_def split: if_splits)

lemma scatter_calls_drawing: "scatter_calls df x y s = Inr cs \<Longrightarrow> list_all is_drawing cs"
  by (cases "has_y y df"; cases "df_getitem df x"; cases "df_getitem df y")
     (auto simp: scatter_calls_def is_drawing_def split: if_splits)

lemma pie_calls_drawing: "pie_calls E df x y s = Inr cs \<Longrightarrow> list_all is_drawing cs"
  by (cases "pie_data E df x y") (auto simp: pie_calls_def is_drawing_def)

lemma histogram_calls_drawing: "histogram_calls df x s = Inr cs \<Longrightarrow> list_all is_drawing cs"
  by (cases "df_getitem df x") (auto simp: histogram_calls_def is_drawing_def)

lemma heatmap_calls_drawing: "heatmap_calls E df s = Inr cs \<Longrightarrow> list_all is_drawing cs"
  by (auto simp: heatmap_calls_def is_drawing_def Let_def list_all_iff split: if_splits)

lemma chart_calls_drawing:
  "chart_calls E df t x y s = Inr cs \<Longrightarrow> list_all is_drawing cs"
  unfolding chart_calls_def
  by (auto split: if_splits
      dest: bar_calls_drawing line_calls_drawing scatter_calls_drawing pie_calls_drawing
        histogram_calls_drawing heatmap_calls_drawing)

lemma render_Inr_figures:
  assumes "render E i fs = (Inr img, fs')"
  shows "fs' = fs"
proof -
  from assms obtain w h calls fs2 where
    cc: "chart_calls E (in_df i) (in_chart_type i) (in_x_column i) (in_y_column i)
           (in_color_scheme i) = Inr calls"
    and rc: "run_calls E (calls @ [Title (in_title i), Tight_layout, Savefig])
               (\<lparr>fig_size = (w, h), drawn = []\<rparr> # fs) = (None, fs2)"
    and cl: "fs' = plt Close fs2"
    by (auto simp: render_def split: sum.splits prod.splits option.splits)
  from chart_calls_drawing [OF cc]
  have "list_all is_drawing (calls @ [Title (in_title i), Tight_layout, Savefig])"
    by (simp add: is_drawing_def)
  from run_calls_drawing [OF this rc] obtain f' where "fs2 = f' # fs" by blast
  with cl show ?thesis by simp
qed

text \<open>
  On the success path the figure that the call opened is closed again: the open figures
  after the call are those before it.
\<close>

lemma generate_chart_success_closes_figure:
  assumes "generate_chart E req w = (Inr r, w')"
  shows "figures w' = figures w"
proof -
  from assms have "try_generate E req w = (Inr r, w')" by (rule generate_chart_Inr)
  then obtain i img where "render E i (figures w) = (Inr img, figures w')"
    by (auto dest: try_generate_Inr)
  then show ?thesis by (rule render_Inr_figures)
qed

text \<open>
  Claim C5 does not hold of the code. \<^verbatim>\<open>plt.close()\<close> is on the success path
  only (line 216), outside any \<^verbatim>\<open>finally\<close>: a scatter request without a y column
  raises after \<^verbatim>\<open>plt.figure\<close> has opened the figure, and the call returns with that
  figure still open in the process-wide pyplot state.
\<close>

theorem generate_chart_error_leaks_figure:
  "generate_chart (sample_env staff_df) (sample_request ''scatter'' (PStr ''Age'') PNone) empty_world
     = (Inl (HTTPException 500 (DetailOf ''Error generating chart: ''
               (HTTPException 400 (Detail ''Scatter plot requires both X and Y columns'')))),
        \<lparr>figures = [\<lparr>fig_size = (8, 6), drawn = []\<rparr>], charts = []\<rparr>)"
  by (simp add: handler_defs branch_defs sample_defs)

section \<open>A y column that the data does not have\<close>

text \<open>
  Claim C10 does not hold of the code for line charts. With a \<^verbatim>\<open>y_column\<close> that
  names no column the fallback branch plots row index against x and labels the x axis
  \<^verbatim>\<open>Index\<close> (line 163), but line 164 tests \<^verbatim>\<open>y_column\<close> alone and relabels
  the axis with \<^verbatim>\<open>x_column\<close>; with \<^verbatim>\<open>y_column\<close> absent the label stays
  \<^verbatim>\<open>Index\<close>. The two renderings differ.
\<close>

theorem line_chart_unknown_y_label:
  "chart_calls (sample_env staff_df) staff_df (PStr ''line'') (PStr ''Salary'') (PStr ''Bonus'')
       (PStr ''viridis'')
     = Inr [Plot [Num 0, Num 1, Num 2] [Num 10, Num 20, Num 30] (PStr ''viridis''),
            Ylabel (PStr ''Salary''), Xlabel (PStr ''Index''), Xlabel (PStr ''Salary'')]
   \<and> chart_calls (sample_env staff_df) staff_df (PStr ''line'') (PStr ''Salary'') PNone
       (PStr ''viridis'')
     = Inr [Plot [Num 0, Num 1, Num 2] [Num 10, Num 20, Num 30] (PStr ''viridis''),
            Ylabel (PStr ''Salary''), Xlabel (PStr ''Index''), Xlabel (PStr ''Index'')]"
  by (simp add: chart_calls_def branch_defs staff_df_def upt_conv_Cons)

section \<open>The correlation heatmap\<close>
















section \<open>Counting and summing by x value\<close>
































end
